theory Spec2Isabelle
  imports Main
begin

section \<open>Python text: code points, lowercasing, word characters\<close>

text \<open>
  A Python \<^verbatim>\<open>str\<close> is a sequence of Unicode code points; a code point is modelled as a
  natural number and a string as the list of its code points. \<open>str\<close> reads an ASCII
  literal of the source.
\<close>

type_synonym ustr = "nat list"

definition str :: "string \<Rightarrow> ustr" where
  "str s = map of_char s"

text \<open>
  What the interpreter supplies and the repository does not contain is a parameter of the
  model:
  \<^item> \<open>uc_lower\<close>, \<open>uc_title\<close>: the lowercase and titlecase mappings of the Unicode
    character database for a code point outside ASCII (a mapping may give several code
    points).
  \<^item> \<open>uc_cased\<close>, \<open>uc_case_ignorable\<close>: the properties Cased and Case_Ignorable of a
    code point outside ASCII, which the one context-sensitive rule of \<^verbatim>\<open>str.lower\<close>,
    the one for capital sigma, reads of the neighbours of a sigma.
  \<^item> \<open>uc_alnum\<close>: whether a code point outside ASCII is alphanumeric, which is what
    \<^verbatim>\<open>\w\<close> of a \<^verbatim>\<open>str\<close> pattern tests besides the underscore.
  \<^item> \<open>set_order\<close>: the order in which a \<^verbatim>\<open>set\<close> built from a list is iterated, which
    Python leaves unspecified.
  Inside ASCII the behaviour is fixed and written out below.
\<close>

record pyenv =
  uc_lower :: "nat \<Rightarrow> ustr"
  uc_title :: "nat \<Rightarrow> ustr"
  uc_cased :: "nat \<Rightarrow> bool"
  uc_case_ignorable :: "nat \<Rightarrow> bool"
  uc_alnum :: "nat \<Rightarrow> bool"
  set_order :: "ustr list \<Rightarrow> ustr list"

definition is_ascii_upper :: "nat \<Rightarrow> bool" where
  "is_ascii_upper c = (65 \<le> c \<and> c \<le> 90)"

definition is_ascii_lower :: "nat \<Rightarrow> bool" where
  "is_ascii_lower c = (97 \<le> c \<and> c \<le> 122)"

definition is_ascii_digit :: "nat \<Rightarrow> bool" where
  "is_ascii_digit c = (48 \<le> c \<and> c \<le> 57)"

definition lower_char :: "pyenv \<Rightarrow> nat \<Rightarrow> ustr" where
  "lower_char E c =
     (if c < 128 then [if is_ascii_upper c then c + 32 else c] else uc_lower E c)"

definition title_char :: "pyenv \<Rightarrow> nat \<Rightarrow> ustr" where
  "title_char E c =
     (if c < 128 then [if is_ascii_lower c then c - 32 else c] else uc_title E c)"

text \<open>
  The properties Cased and Case_Ignorable. In ASCII the cased characters are the letters,
  and the case-ignorable ones are the apostrophe, the full stop, the colon, the circumflex
  and the grave accent.
\<close>

definition is_cased :: "pyenv \<Rightarrow> nat \<Rightarrow> bool" where
  "is_cased E c = (if c < 128 then is_ascii_upper c \<or> is_ascii_lower c else uc_cased E c)"

definition is_case_ignorable :: "pyenv \<Rightarrow> nat \<Rightarrow> bool" where
  "is_case_ignorable E c =
     (if c < 128 then c = 39 \<or> c = 46 \<or> c = 58 \<or> c = 94 \<or> c = 96
      else uc_case_ignorable E c)"

text \<open>
  A capital sigma (U+03A3, 931) is lowered to the final small sigma (U+03C2, 962) when it
  ends a word, and to the small sigma (U+03C3, 963) otherwise. It ends a word when the
  nearest character before it that is not case-ignorable exists and is cased, and the
  nearest character after it that is not case-ignorable does not exist or is not cased.
  \<open>before\<close> and \<open>after\<close> are the characters of the string before and after the sigma.
\<close>

definition final_sigma :: "pyenv \<Rightarrow> ustr \<Rightarrow> ustr \<Rightarrow> bool" where
  "final_sigma E before after =
     (case dropWhile (is_case_ignorable E) (rev before) of
        [] \<Rightarrow> False
      | c # _ \<Rightarrow>
          is_cased E c \<and>
          (case dropWhile (is_case_ignorable E) after of
             [] \<Rightarrow> True
           | d # _ \<Rightarrow> \<not> is_cased E d))"

text \<open>
  The lowercase of the characters \<open>cs\<close> that follow the characters \<open>before\<close> in a
  string: every character by its own mapping, a capital sigma by its place in the string.
\<close>

fun lower_from :: "pyenv \<Rightarrow> ustr \<Rightarrow> ustr \<Rightarrow> ustr" where
  "lower_from E before [] = []"
| "lower_from E before (c # cs) =
     (if c = 931 then [if final_sigma E before cs then 962 else 963] else lower_char E c) @
     lower_from E (before @ [c]) cs"

text \<open>\<^verbatim>\<open>s.lower()\<close>\<close>

definition py_lower :: "pyenv \<Rightarrow> ustr \<Rightarrow> ustr" where
  "py_lower E s = lower_from E [] s"

text \<open>\<^verbatim>\<open>s.capitalize()\<close>: the first character in titlecase, the rest in lowercase.\<close>

fun capitalize :: "pyenv \<Rightarrow> ustr \<Rightarrow> ustr" where
  "capitalize E [] = []"
| "capitalize E (c # cs) = title_char E c @ lower_from E [c] cs"

text \<open>\<^verbatim>\<open>sep.join(xs)\<close>\<close>

fun join :: "ustr \<Rightarrow> ustr list \<Rightarrow> ustr" where
  "join sep [] = []"
| "join sep [x] = x"
| "join sep (x # y # ys) = x @ sep @ join sep (y # ys)"

text \<open>
  \<^verbatim>\<open>list(set(xs))\<close>: the elements of \<open>xs\<close>, each once, in the order the environment
  gives. Every enumeration without repetition is a possible order and nothing else is:
  a proposal of \<open>set_order\<close> that is not one is replaced by \<open>remdups xs\<close>.
\<close>

definition list_of_set :: "pyenv \<Rightarrow> ustr list \<Rightarrow> ustr list" where
  "list_of_set E xs =
     (let ys = set_order E xs
      in if distinct ys \<and> set ys = set xs then ys else remdups xs)"

section \<open>Searching a text for whole words\<close>

text \<open>\<^verbatim>\<open>\w\<close> of a \<^verbatim>\<open>str\<close> pattern: alphanumeric or underscore.\<close>

definition is_word :: "pyenv \<Rightarrow> nat \<Rightarrow> bool" where
  "is_word E c =
     (if c < 128 then is_ascii_upper c \<or> is_ascii_lower c \<or> is_ascii_digit c \<or> c = 95
      else uc_alnum E c)"

text \<open>
  \<^verbatim>\<open>\b\<close> at position \<open>p\<close> of \<open>s\<close>: exactly one of the characters before and at
  \<open>p\<close> is a word character, where the outside of the string counts as a non-word
  character.
\<close>

definition at_boundary :: "pyenv \<Rightarrow> ustr \<Rightarrow> nat \<Rightarrow> bool" where
  "at_boundary E s p =
     (let that = (0 < p \<and> p \<le> length s \<and> is_word E (s ! (p - 1)));
          this = (p < length s \<and> is_word E (s ! p))
      in this \<noteq> that)"

text \<open>
  Both patterns of the source have the shape \<^verbatim>\<open>\b(w1|w2|...)\b\<close> with literal, non-empty
  words; a pattern is kept as the list of its alternatives, in the order written.
\<close>

datatype pattern = Whole_word "ustr list"

text \<open>
  A match attempt at position \<open>p\<close>, after the leading \<^verbatim>\<open>\b\<close> has succeeded: the
  alternatives are tried from left to right, and an alternative whose literal is there but
  whose trailing \<^verbatim>\<open>\b\<close> fails is abandoned for the next one. An empty alternative,
  of which the source has none, is passed over.
\<close>

fun first_alt :: "pyenv \<Rightarrow> ustr \<Rightarrow> nat \<Rightarrow> ustr list \<Rightarrow> ustr option" where
  "first_alt E s p [] = None"
| "first_alt E s p (t # ts) =
     (if t \<noteq> [] \<and> take (length t) (drop p s) = t \<and> at_boundary E s (p + length t)
      then Some t else first_alt E s p ts)"

definition match_at :: "pyenv \<Rightarrow> ustr list \<Rightarrow> ustr \<Rightarrow> nat \<Rightarrow> ustr option" where
  "match_at E alts s p = (if at_boundary E s p then first_alt E s p alts else None)"

text \<open>
  The scan of \<^verbatim>\<open>re.findall\<close>: from position \<open>p\<close>, a match contributes its group and the
  scan resumes at the end of the match; without a match it moves on by one character.
\<close>

function findall_at :: "pyenv \<Rightarrow> ustr list \<Rightarrow> ustr \<Rightarrow> nat \<Rightarrow> ustr list" where
  "findall_at E alts s p =
     (if length s < p then []
      else (case match_at E alts s p of
              Some t \<Rightarrow> t # findall_at E alts s (p + length t)
            | None \<Rightarrow> findall_at E alts s (p + 1)))"
  by pat_completeness auto
termination
proof (relation "measure (\<lambda>(E, alts, s, p). Suc (length s) - p)")
  show "wf (measure (\<lambda>(E, alts, s, p). Suc (length s) - p))" by simp
next
  fix E :: pyenv and alts s p
  assume "\<not> length s < p" "match_at E alts s p = None"
  then show "((E, alts, s, p + 1), (E, alts, s, p)) \<in> measure (\<lambda>(E, alts, s, p). Suc (length s) - p)"
    by simp
next
  fix E :: pyenv and alts s p t
  assume "\<not> length s < p" and "match_at E alts s p = Some t"
  have "first_alt E s p ts = Some t \<Longrightarrow> t \<noteq> []" for ts
    by (induction ts) (auto split: if_splits)
  with \<open>match_at E alts s p = Some t\<close> have "t \<noteq> []"
    by (auto simp: match_at_def split: if_splits)
  then have "Suc 0 \<le> length t" by (cases t) auto
  with \<open>\<not> length s < p\<close>
  show "((E, alts, s, p + length t), (E, alts, s, p)) \<in> measure (\<lambda>(E, alts, s, p). Suc (length s) - p)"
    by simp
qed

declare findall_at.simps [simp del]

text \<open>\<^verbatim>\<open>re.findall(pattern, text)\<close>\<close>

fun findall :: "pyenv \<Rightarrow> pattern \<Rightarrow> ustr \<Rightarrow> ustr list" where
  "findall E (Whole_word alts) s = findall_at E alts s 0"

fun alternatives :: "pattern \<Rightarrow> ustr list" where
  "alternatives (Whole_word alts) = alts"

section \<open>The entity extractor\<close>

definition MEDICATION_PATTERN :: pattern where
  "MEDICATION_PATTERN = Whole_word (map str
     [''aspirin'', ''lisinopril'', ''metformin'', ''warfarin'', ''atorvastatin'',
      ''ibuprofen'', ''paracetamol''])"

definition SYMPTOM_PATTERN :: pattern where
  "SYMPTOM_PATTERN = Whole_word (map str
     [''cough'', ''nausea'', ''dizziness'', ''rash'', ''headache'', ''vomiting'',
      ''fatigue'', ''swelling''])"

definition extract_entities :: "pyenv \<Rightarrow> ustr \<Rightarrow> ustr list \<times> ustr list" where
  "extract_entities E text0 =
     (let text = py_lower E text0;
          meds = list_of_set E (findall E MEDICATION_PATTERN text);
          symptoms = list_of_set E (findall E SYMPTOM_PATTERN text)
      in (meds, symptoms))"

section \<open>Exceptions, JSON values and what the user sees\<close>

text \<open>
  Every \<^verbatim>\<open>try\<close> of the source catches \<^verbatim>\<open>Exception\<close>. An exception raised by a
  collaborator (the network library, the audio decoder, the recogniser, the JSON parser) is
  \<open>Raised m\<close> with \<open>m\<close> its text \<^verbatim>\<open>str(e)\<close>; the three others are the ones the source's
  own expressions raise on a value of the wrong shape.
\<close>

datatype exn = Raised ustr | AttributeError | TypeError | KeyError

text \<open>
  A parsed JSON value. An object keeps its members in document order; a number is never
  read by the source beyond being zero or not.
\<close>

datatype json =
    JNull | JBool bool | JNum int | JStr ustr | JArr "json list" | JObj "(ustr \<times> json) list"

text \<open>\<^verbatim>\<open>d[k]\<close> of the \<^verbatim>\<open>dict\<close> parsed from an object: the last member of that name.\<close>

definition member :: "(ustr \<times> json) list \<Rightarrow> ustr \<Rightarrow> json option" where
  "member kvs k = map_of (rev kvs) k"

text \<open>\<^verbatim>\<open>v.get(k, d)\<close>: only a \<^verbatim>\<open>dict\<close> has the method.\<close>

fun dict_get :: "json \<Rightarrow> ustr \<Rightarrow> json \<Rightarrow> exn + json" where
  "dict_get (JObj kvs) k d = Inr (case member kvs k of None \<Rightarrow> d | Some v \<Rightarrow> v)"
| "dict_get _ k d = Inl AttributeError"

text \<open>What \<^verbatim>\<open>for item in v\<close> ranges over.\<close>

fun iter_json :: "json \<Rightarrow> exn + json list" where
  "iter_json (JArr xs) = Inr xs"
| "iter_json (JStr s) = Inr (map (\<lambda>c. JStr [c]) s)"
| "iter_json (JObj kvs) = Inr (map JStr (rev (remdups (rev (map fst kvs)))))"
| "iter_json _ = Inl TypeError"


text \<open>A list comprehension whose element expression may raise stops at the first raise.\<close>

fun map_exn :: "('a \<Rightarrow> exn + 'b) \<Rightarrow> 'a list \<Rightarrow> exn + 'b list" where
  "map_exn f [] = Inr []"
| "map_exn f (x # xs) =
     (case f x of
        Inl e \<Rightarrow> Inl e
      | Inr y \<Rightarrow> (case map_exn f xs of Inl e \<Rightarrow> Inl e | Inr ys \<Rightarrow> Inr (y # ys)))"

text \<open>
  The parameters of the one network call, \<^verbatim>\<open>requests.get(url, params=..., timeout=10)\<close>.
\<close>

record request =
  url :: ustr
  search :: ustr
  count :: ustr
  limit :: nat
  timeout :: nat

text \<open>
  What the program does that can be observed: the calls to the user interface, in order
  (a \<^verbatim>\<open>with\<close> block holds the calls made inside it), and the network requests.
  \<open>St_error_exn p e\<close> is \<^verbatim>\<open>st.error(f"{p}{str(e)}")\<close>.
\<close>

datatype event =
    St_warning ustr
  | St_subheader ustr
  | St_write ustr
  | St_write2 ustr ustr
  | St_success ustr
  | St_error ustr
  | St_error_exn ustr exn
  | St_spinner ustr "event list"
  | St_expander ustr "event list"
  | Http_get request

text \<open>The network requests among the events, those inside blocks included.\<close>

fun requests_of :: "event \<Rightarrow> request list" where
  "requests_of (Http_get r) = [r]"
| "requests_of (St_spinner l body) = concat (map requests_of body)"
| "requests_of (St_expander l body) = concat (map requests_of body)"
| "requests_of _ = []"

text \<open>The error boxes among the events, those inside blocks included.\<close>

fun diagnostics_of :: "event \<Rightarrow> event list" where
  "diagnostics_of (St_error m) = [St_error m]"
| "diagnostics_of (St_error_exn p e) = [St_error_exn p e]"
| "diagnostics_of (St_spinner l body) = concat (map diagnostics_of body)"
| "diagnostics_of (St_expander l body) = concat (map diagnostics_of body)"
| "diagnostics_of _ = []"

section \<open>The adverse-event lookup\<close>

text \<open>
  The remote service is a parameter: from its state and a request it gives either the
  exception \<^verbatim>\<open>requests.get\<close> raises (no connection, timeout, ...) or a response, and
  its next state. A response has a status code and what \<^verbatim>\<open>response.json()\<close> gives:
  an exception for a body that is not JSON, or the parsed value.
\<close>

record response =
  status_code :: nat
  json_body :: "exn + json"

type_synonym 'w remote = "'w \<Rightarrow> request \<Rightarrow> (exn + response) \<times> 'w"

definition fda_request :: "ustr \<Rightarrow> request" where
  "fda_request medication =
     \<lparr>url = str ''https://api.fda.gov/drug/event.json'',
      search = str ''patient.drug.medicinalproduct:'' @ [34] @ medication @ [34],
      count = str ''patient.reaction.reactionmeddrapt.exact'',
      limit = 5,
      timeout = 10\<rparr>"

text \<open>\<^verbatim>\<open>item['term'].lower()\<close>\<close>

fun term_of :: "pyenv \<Rightarrow> json \<Rightarrow> exn + ustr" where
  "term_of E (JObj kvs) =
     (case member kvs (str ''term'') of
        None \<Rightarrow> Inl KeyError
      | Some (JStr t) \<Rightarrow> Inr (py_lower E t)
      | Some _ \<Rightarrow> Inl AttributeError)"
| "term_of E _ = Inl TypeError"

text \<open>
  \<^verbatim>\<open>[item['term'].lower() for item in response.json().get('results', [])]\<close>
\<close>

definition terms_of_response :: "pyenv \<Rightarrow> response \<Rightarrow> exn + ustr list" where
  "terms_of_response E r =
     (case json_body r of
        Inl e \<Rightarrow> Inl e
      | Inr v \<Rightarrow>
          (case dict_get v (str ''results'') (JArr []) of
             Inl e \<Rightarrow> Inl e
           | Inr res \<Rightarrow>
               (case iter_json res of
                  Inl e \<Rightarrow> Inl e
                | Inr items \<Rightarrow> map_exn (term_of E) items)))"

text \<open>
  \<open>get_fda_events\<close> returns the list, the events of the call and the next state of the
  remote service.
\<close>

definition get_fda_events ::
  "pyenv \<Rightarrow> 'w remote \<Rightarrow> 'w \<Rightarrow> ustr \<Rightarrow> (ustr list \<times> event list) \<times> 'w" where
  "get_fda_events E remote w medication =
     (let req = fda_request medication;
          (outcome, w') = remote w req
      in case outcome of
           Inl e \<Rightarrow> (([], [Http_get req, St_error_exn (str ''FDA API Error: '') e]), w')
         | Inr resp \<Rightarrow>
             if status_code resp = 200
             then (case terms_of_response E resp of
                     Inl e \<Rightarrow>
                       (([], [Http_get req, St_error_exn (str ''FDA API Error: '') e]), w')
                   | Inr terms \<Rightarrow> ((terms, [Http_get req]), w'))
             else (([], [Http_get req]), w'))"

section \<open>The cross-referencer and presenter\<close>

text \<open>\<^verbatim>\<open>matches = [s for s in symptoms if s in adverse_events]\<close>\<close>

definition matches :: "ustr list \<Rightarrow> ustr list \<Rightarrow> ustr list" where
  "matches symptoms adverse_events = filter (\<lambda>s. s \<in> set adverse_events) symptoms"

text \<open>The report of one medication whose lookup gave a non-empty list.\<close>

definition report :: "pyenv \<Rightarrow> ustr list \<Rightarrow> ustr list \<Rightarrow> event list" where
  "report E symptoms adverse_events =
     (let ms = matches symptoms adverse_events
      in if ms \<noteq> []
         then [St_error (str ''**Potential adverse effects detected:**'')] @
              map (\<lambda>m. St_write ([8226, 32] @ capitalize E m)) ms @
              [St_write (str ''Common FDA-reported effects:''),
               St_write (join (str '', '') (map (capitalize E) adverse_events))]
         else [St_success (str ''No matching adverse effects detected''),
               St_write2 (str ''Known effects:'')
                 (join (str '', '') (map (capitalize E) adverse_events))])"

text \<open>The body of the loop over the medications: one expander.\<close>

definition analyse_medication ::
  "pyenv \<Rightarrow> 'w remote \<Rightarrow> 'w \<Rightarrow> ustr list \<Rightarrow> ustr \<Rightarrow> event \<times> 'w" where
  "analyse_medication E remote w symptoms med0 =
     (let med = capitalize E med0;
          ((adverse_events, evs), w') = get_fda_events E remote w med
      in (St_expander (str ''**'' @ med @ str ''** Analysis'')
            (evs @
             (if adverse_events = []
              then [St_write (str ''No adverse event data found'')]
              else report E symptoms adverse_events)),
          w'))"

fun analyse_medications ::
  "pyenv \<Rightarrow> 'w remote \<Rightarrow> 'w \<Rightarrow> ustr list \<Rightarrow> ustr list \<Rightarrow> event list \<times> 'w" where
  "analyse_medications E remote w symptoms [] = ([], w)"
| "analyse_medications E remote w symptoms (med # meds) =
     (let (section, w') = analyse_medication E remote w symptoms med;
          (sections, w'') = analyse_medications E remote w' symptoms meds
      in (section # sections, w''))"

text \<open>The analysis section of the script, run on the text of the input section.\<close>

definition analysis :: "pyenv \<Rightarrow> 'w remote \<Rightarrow> 'w \<Rightarrow> ustr \<Rightarrow> event list \<times> 'w" where
  "analysis E remote w text =
     (if text = [] then ([], w)
      else
        (let (meds, symptoms) = extract_entities E text
         in if meds = []
            then ([St_spinner (str ''Analyzing...'') [],
                   St_warning (str ''No medications detected in the text'')], w)
            else
              (let (sections, w') = analyse_medications E remote w symptoms meds
               in (St_spinner (str ''Analyzing...'') [] #
                   St_subheader (str ''Analysis Results'') # sections, w'))))"

section \<open>The transcriber\<close>








section \<open>The script: input section and analysis section\<close>




section \<open>Notions of the specification\<close>

text \<open>
  A term \<open>t\<close> stands as a whole word at position \<open>p\<close> of \<open>s\<close>: it is there, and neither
  the character before it nor the character after it, if there is one, is a word
  character.
\<close>

definition whole_word_at :: "pyenv \<Rightarrow> ustr \<Rightarrow> ustr \<Rightarrow> nat \<Rightarrow> bool" where
  "whole_word_at E t s p =
     (t \<noteq> [] \<and> p + length t \<le> length s \<and> take (length t) (drop p s) = t \<and>
      (p = 0 \<or> \<not> is_word E (s ! (p - 1))) \<and>
      (p + length t = length s \<or> \<not> is_word E (s ! (p + length t))))"

definition occurs_as_whole_word :: "pyenv \<Rightarrow> ustr \<Rightarrow> ustr \<Rightarrow> bool" where
  "occurs_as_whole_word E t s = (\<exists>p \<in> {0..length s}. whole_word_at E t s p)"

text \<open>
  An occurrence of \<open>t\<close> at position \<open>p\<close> of \<open>s\<close> is embedded in a longer word: the
  character just before it or the character just after it is a word character.
\<close>

definition embedded_at :: "pyenv \<Rightarrow> ustr \<Rightarrow> ustr \<Rightarrow> nat \<Rightarrow> bool" where
  "embedded_at E t s p =
     ((0 < p \<and> is_word E (s ! (p - 1))) \<or>
      (p + length t < length s \<and> is_word E (s ! (p + length t))))"

text \<open>
  Two characters are the same letter up to case: they are equal, or an ASCII capital and
  its small letter, or two characters outside ASCII, neither the capital sigma, with the
  same lowercase mapping and the same properties Cased and Case_Ignorable. Two texts
  differ only in letter case when they do so position by position.
\<close>

definition same_letter :: "pyenv \<Rightarrow> nat \<Rightarrow> nat \<Rightarrow> bool" where
  "same_letter E c d =
     (c = d \<or> (is_ascii_upper c \<and> d = c + 32) \<or> (is_ascii_upper d \<and> c = d + 32) \<or>
      (128 \<le> c \<and> 128 \<le> d \<and> c \<noteq> 931 \<and> d \<noteq> 931 \<and> uc_lower E c = uc_lower E d \<and>
       uc_cased E c = uc_cased E d \<and> uc_case_ignorable E c = uc_case_ignorable E d))"

definition differ_only_in_case :: "pyenv \<Rightarrow> ustr \<Rightarrow> ustr \<Rightarrow> bool" where
  "differ_only_in_case E a b = list_all2 (same_letter E) a b"

text \<open>
  The items of the results list that the remote service sent: none when the call raised,
  or the body is not an object with a list under \<^verbatim>\<open>results\<close>.
\<close>

definition results_sent :: "exn + response \<Rightarrow> json list" where
  "results_sent outcome =
     (case outcome of
        Inl e \<Rightarrow> []
      | Inr resp \<Rightarrow>
          (case json_body resp of
             Inr (JObj kvs) \<Rightarrow>
               (case member kvs (str ''results'') of Some (JArr items) \<Rightarrow> items | _ \<Rightarrow> [])
           | _ \<Rightarrow> []))"

text \<open>The reaction term of an item of the results list, if it has one.\<close>

fun reaction_term :: "json \<Rightarrow> ustr option" where
  "reaction_term (JObj kvs) =
     (case member kvs (str ''term'') of Some (JStr t) \<Rightarrow> Some t | _ \<Rightarrow> None)"
| "reaction_term _ = None"

text \<open>
  \<open>a\<close> is the lowercased reaction term of an item: the item has a term and \<open>a\<close> is what
  \<^verbatim>\<open>lower()\<close> makes of it; for a term written in ASCII that is the term with every
  capital replaced by its small letter, in which no capital is left.
\<close>

definition ascii_small :: "nat \<Rightarrow> nat" where
  "ascii_small c = (if 65 \<le> c \<and> c \<le> 90 then c + 32 else c)"

definition lowercased_term_of :: "pyenv \<Rightarrow> json \<Rightarrow> ustr \<Rightarrow> bool" where
  "lowercased_term_of E item a =
     (case reaction_term item of
        None \<Rightarrow> False
      | Some t \<Rightarrow>
          a = py_lower E t \<and>
          ((\<forall>c \<in> set t. c < 128) \<longrightarrow>
             a = map ascii_small t \<and> (\<forall>c \<in> set a. \<not> (65 \<le> c \<and> c \<le> 90))))"




section \<open>Concrete collaborators\<close>

text \<open>
  An environment in which no character outside ASCII is a letter, and a set is iterated
  as \<open>remdups\<close> leaves it.
\<close>

definition plain_env :: pyenv where
  "plain_env =
     \<lparr>uc_lower = (\<lambda>c. [c]), uc_title = (\<lambda>c. [c]), uc_cased = (\<lambda>c. False),
      uc_case_ignorable = (\<lambda>c. False), uc_alnum = (\<lambda>c. False), set_order = remdups\<rparr>"

text \<open>
  An environment that knows the Greek letters: the capitals U+0391 to U+03A9 (913 to 937)
  and the small letters U+03B1 to U+03C9 (945 to 969).
\<close>

definition greek_env :: pyenv where
  "greek_env =
     \<lparr>uc_lower = (\<lambda>c. if 913 \<le> c \<and> c \<le> 937 then [c + 32] else [c]),
      uc_title = (\<lambda>c. if c = 962 then [931] else if 945 \<le> c \<and> c \<le> 969 then [c - 32] else [c]),
      uc_cased = (\<lambda>c. (913 \<le> c \<and> c \<le> 937) \<or> (945 \<le> c \<and> c \<le> 969)),
      uc_case_ignorable = (\<lambda>c. False),
      uc_alnum = (\<lambda>c. (913 \<le> c \<and> c \<le> 937) \<or> (945 \<le> c \<and> c \<le> 969)),
      set_order = remdups\<rparr>"

definition reaction :: "string \<Rightarrow> int \<Rightarrow> json" where
  "reaction t n = JObj [(str ''term'', JStr (str t)), (str ''count'', JNum n)]"

text \<open>
  A remote service that counts its calls. It knows three reactions of aspirin, answers a
  question about ibuprofen with six results, times out on warfarin, answers a question
  about lisinopril with a page that is not JSON and has no record of anything else.
\<close>

definition demo_remote :: "nat remote" where
  "demo_remote w req =
     (if search req = search (fda_request (str ''Aspirin''))
      then Inr \<lparr>status_code = 200,
                json_body = Inr (JObj [(str ''results'',
                  JArr [reaction ''NAUSEA'' 9, reaction ''BLEEDING'' 7, reaction ''RASH'' 2])])\<rparr>
      else if search req = search (fda_request (str ''Ibuprofen''))
      then Inr \<lparr>status_code = 200,
                json_body = Inr (JObj [(str ''results'',
                  JArr [reaction ''PAIN'' 9, reaction ''RASH'' 8, reaction ''NAUSEA'' 7,
                        reaction ''COUGH'' 6, reaction ''FATIGUE'' 5, reaction ''ASTHMA'' 4])])\<rparr>
      else if search req = search (fda_request (str ''Warfarin''))
      then Inl (Raised (str ''timed out''))
      else if search req = search (fda_request (str ''Lisinopril''))
      then Inr \<lparr>status_code = 200, json_body = Inl (Raised (str ''Expecting value''))\<rparr>
      else Inr \<lparr>status_code = 404,
                json_body = Inr (JObj [(str ''error'', JStr (str ''NOT_FOUND''))])\<rparr>,
      w + 1)"


section \<open>Properties of the search\<close>

lemma first_alt_Some:
  "first_alt E s p alts = Some t \<Longrightarrow>
     t \<in> set alts \<and> t \<noteq> [] \<and> take (length t) (drop p s) = t \<and> at_boundary E s (p + length t)"
  by (induction alts) (auto split: if_splits)

lemma match_at_Some:
  "match_at E alts s p = Some t \<Longrightarrow>
     t \<in> set alts \<and> t \<noteq> [] \<and> at_boundary E s p \<and> take (length t) (drop p s) = t \<and>
     at_boundary E s (p + length t)"
  unfolding match_at_def using first_alt_Some [of E s p alts t]
  by (simp split: if_splits)

lemma findall_at_sound:
  "t \<in> set (findall_at E alts s p) \<Longrightarrow>
     t \<in> set alts \<and> t \<noteq> [] \<and>
     (\<exists>q. p \<le> q \<and> q \<le> length s \<and> at_boundary E s q \<and> take (length t) (drop q s) = t \<and>
          at_boundary E s (q + length t))"
proof (induction E alts s p rule: findall_at.induct)
  case (1 E alts s p)
  show ?case
  proof (cases "length s < p")
    case True
    with "1.prems" show ?thesis by (simp add: findall_at.simps [of E alts s p])
  next
    case False
    show ?thesis
    proof (cases "match_at E alts s p")
      case None
      with False "1.prems" have "t \<in> set (findall_at E alts s (p + 1))"
        by (simp add: findall_at.simps [of E alts s p])
      from "1.IH"(1) [OF False None this] show ?thesis
        by (elim conjE exE) (intro conjI exI [of _ "_ :: nat"]; simp)
    next
      case (Some u)
      with False "1.prems" have "t = u \<or> t \<in> set (findall_at E alts s (p + length u))"
        by (simp add: findall_at.simps [of E alts s p])
      then show ?thesis
      proof
        assume "t = u"
        with Some match_at_Some [of E alts s p u] False show ?thesis
          by (intro conjI; simp?) (rule exI [of _ p], simp)
      next
        assume "t \<in> set (findall_at E alts s (p + length u))"
        from "1.IH"(2) [OF False Some this] show ?thesis
          by (elim conjE exE) (intro conjI exI [of _ "_ :: nat"]; simp)
      qed
    qed
  qed
qed

section \<open>Properties of the lowercasing\<close>

text \<open>
  The capital sigma by its place: at the end of a word the final small sigma, at the
  beginning the other one; and a capital sigma alone is not at the end of a word.
\<close>

lemma py_lower_sigma:
  "py_lower greek_env [913, 931, 32, 931, 913] = [945, 962, 32, 963, 945]"
  "py_lower greek_env [931] = [963]"
  "py_lower greek_env [65, 39, 931, 46] = [97, 39, 962, 46]"
  by (simp_all add: py_lower_def lower_char_def final_sigma_def is_cased_def
      is_case_ignorable_def is_ascii_upper_def is_ascii_lower_def greek_env_def)

section \<open>Properties of the entity extractor\<close>

lemma list_of_set_props: "distinct (list_of_set E xs) \<and> set (list_of_set E xs) = set xs"
  by (simp add: list_of_set_def Let_def)

lemma list_of_set_Nil: "list_of_set E [] = []"
  using list_of_set_props [of E "[]"] by simp

lemma list_of_set_single: "list_of_set E [x] = [x]"
proof -
  have d: "distinct (list_of_set E [x])" and s: "set (list_of_set E [x]) = {x}"
    using list_of_set_props [of E "[x]"] by simp_all
  show ?thesis
  proof (cases "list_of_set E [x]")
    case Nil
    with s show ?thesis by simp
  next
    case (Cons y ys)
    with s have "y = x" by auto
    moreover have "ys = []"
    proof (cases ys)
      case (Cons z zs)
      with \<open>list_of_set E [x] = y # ys\<close> s d show ?thesis by auto
    qed simp
    ultimately show ?thesis using Cons by simp
  qed
qed

lemma take_drop_bound:
  assumes "take (length t) (drop p s) = t" "t \<noteq> []"
  shows "p + length t \<le> length s"
proof -
  have "length t = min (length t) (length s - p)"
    using arg_cong [OF assms(1), of length] by simp
  moreover from assms have "p < length s" by (cases "p < length s") auto
  ultimately show ?thesis by linarith
qed

lemma take_drop_nth:
  assumes "take (length t) (drop p s) = t" "i < length t"
  shows "s ! (p + i) = t ! i"
proof -
  have "p + length t \<le> length s" using assms by (intro take_drop_bound) auto
  then have "take (length t) (drop p s) ! i = s ! (p + i)"
    using assms(2) by simp
  with assms(1) show ?thesis by simp
qed

lemma boundaries_whole_word:
  assumes t: "t \<noteq> []" "is_word E (hd t)" "is_word E (last t)"
    and m: "take (length t) (drop q s) = t"
    and b1: "at_boundary E s q" and b2: "at_boundary E s (q + length t)"
  shows "whole_word_at E t s q"
proof -
  have len: "q + length t \<le> length s" using m t(1) by (rule take_drop_bound)
  have lt: "0 < length t" using t(1) by simp
  have "s ! (q + 0) = t ! 0" using m lt by (rule take_drop_nth)
  then have first: "is_word E (s ! q)" using t by (simp add: hd_conv_nth)
  have "s ! (q + (length t - 1)) = t ! (length t - 1)"
    using m by (rule take_drop_nth) (use lt in simp)
  then have lst: "is_word E (s ! (q + length t - 1))"
    using t lt by (simp add: last_conv_nth)
  have "q < length s" using len lt by linarith
  with b1 first have pre: "q = 0 \<or> \<not> is_word E (s ! (q - 1))"
    by (auto simp: at_boundary_def Let_def)
  from b2 lst len lt have post: "q + length t = length s \<or> \<not> is_word E (s ! (q + length t))"
    by (auto simp: at_boundary_def Let_def)
  show ?thesis
    unfolding whole_word_at_def using t(1) len m pre post by simp
qed

lemma findall_whole_words:
  assumes "t \<in> set (findall E pat s)"
    and "\<forall>u \<in> set (alternatives pat). u \<noteq> [] \<longrightarrow> is_word E (hd u) \<and> is_word E (last u)"
  shows "t \<in> set (alternatives pat) \<and> occurs_as_whole_word E t s"
proof (cases pat)
  case (Whole_word alts)
  with assms(1) have "t \<in> set (findall_at E alts s 0)" by simp
  from findall_at_sound [OF this] obtain q where
    q: "t \<in> set alts" "t \<noteq> []" "q \<le> length s" "at_boundary E s q"
       "take (length t) (drop q s) = t" "at_boundary E s (q + length t)"
    by blast
  with assms(2) Whole_word have "is_word E (hd t)" "is_word E (last t)" by auto
  with q have "whole_word_at E t s q" by (intro boundaries_whole_word) auto
  with q(3) have "occurs_as_whole_word E t s"
    unfolding occurs_as_whole_word_def by auto
  with q(1) Whole_word show ?thesis by simp
qed

lemma medication_words:
  "\<forall>u \<in> set (alternatives MEDICATION_PATTERN). u \<noteq> [] \<longrightarrow> is_word E (hd u) \<and> is_word E (last u)"
  by (simp add: MEDICATION_PATTERN_def str_def is_word_def is_ascii_lower_def)

lemma symptom_words:
  "\<forall>u \<in> set (alternatives SYMPTOM_PATTERN). u \<noteq> [] \<longrightarrow> is_word E (hd u) \<and> is_word E (last u)"
  by (simp add: SYMPTOM_PATTERN_def str_def is_word_def is_ascii_lower_def)

lemma findall_empty: "findall E pat [] = []"
proof (cases pat)
  case (Whole_word alts)
  have "first_alt E [] 0 ts = None" for ts by (induction ts) auto
  then have "match_at E alts [] 0 = None" by (simp add: match_at_def)
  then have "findall_at E alts [] 0 = findall_at E alts [] 1"
    by (simp add: findall_at.simps [of E alts "[]" 0])
  also have "\<dots> = []" using findall_at.simps [of E alts "[]" 1] by simp
  finally show ?thesis using Whole_word by simp
qed

text \<open>
  Claim C1. For every text, the medications returned by \<open>extract_entities\<close> are among the
  alternatives of the medication pattern and the symptoms among those of the symptom
  pattern; every returned term stands as a whole word in the lowercased text; neither list
  has a duplicate; and the empty text gives two empty lists.
\<close>

theorem extract_entities_sound:
  assumes "extract_entities E text = (meds, symptoms)"
  shows "set meds \<subseteq> set (alternatives MEDICATION_PATTERN) \<and>
         set symptoms \<subseteq> set (alternatives SYMPTOM_PATTERN) \<and>
         (\<forall>t \<in> set meds \<union> set symptoms. occurs_as_whole_word E t (py_lower E text)) \<and>
         distinct meds \<and> distinct symptoms \<and>
         extract_entities E [] = ([], [])"
proof -
  from assms have meds: "meds = list_of_set E (findall E MEDICATION_PATTERN (py_lower E text))"
    and syms: "symptoms = list_of_set E (findall E SYMPTOM_PATTERN (py_lower E text))"
    by (simp_all add: extract_entities_def Let_def)
  have m: "t \<in> set (alternatives MEDICATION_PATTERN) \<and> occurs_as_whole_word E t (py_lower E text)"
    if "t \<in> set meds" for t
    using that meds list_of_set_props findall_whole_words [OF _ medication_words] by simp
  have s: "t \<in> set (alternatives SYMPTOM_PATTERN) \<and> occurs_as_whole_word E t (py_lower E text)"
    if "t \<in> set symptoms" for t
    using that syms list_of_set_props findall_whole_words [OF _ symptom_words] by simp
  have e: "extract_entities E [] = ([], [])"
    by (simp add: extract_entities_def Let_def py_lower_def findall_empty list_of_set_Nil)
  from m s e meds syms list_of_set_props show ?thesis by blast
qed

lemma extract_entities_example: "extract_entities plain_env (str ''Take Aspirin, aspirin for NAUSEA'') = ([str ''aspirin''], [str ''nausea''])"
  by (simp add: extract_entities_def Let_def MEDICATION_PATTERN_def SYMPTOM_PATTERN_def str_def py_lower_def lower_char_def is_ascii_upper_def
      findall_at.simps match_at_def at_boundary_def is_word_def is_ascii_lower_def
      is_ascii_digit_def list_of_set_def plain_env_def)

theorem extract_entities_sound_witness:
  "extract_entities plain_env (str ''Take Aspirin, aspirin for NAUSEA'') =
     ([str ''aspirin''], [str ''nausea'']) \<and>
   set [str ''aspirin''] \<subseteq> set (alternatives MEDICATION_PATTERN) \<and>
   set [str ''nausea''] \<subseteq> set (alternatives SYMPTOM_PATTERN) \<and>
   occurs_as_whole_word plain_env (str ''aspirin'')
     (py_lower plain_env (str ''Take Aspirin, aspirin for NAUSEA'')) \<and>
   occurs_as_whole_word plain_env (str ''nausea'')
     (py_lower plain_env (str ''Take Aspirin, aspirin for NAUSEA''))"
  using extract_entities_sound [OF extract_entities_example] extract_entities_example by simp

lemma findall_take_aspirin_now:
  "findall E MEDICATION_PATTERN (py_lower E (str ''take aspirin now'')) = [str ''aspirin'']"
  by (simp add: MEDICATION_PATTERN_def str_def py_lower_def lower_char_def is_ascii_upper_def
      findall_at.simps match_at_def at_boundary_def is_word_def is_ascii_lower_def
      is_ascii_digit_def)

lemma findall_aspirino:
  "findall E MEDICATION_PATTERN (py_lower E (str ''aspirino 100mg'')) = []"
  by (simp add: MEDICATION_PATTERN_def str_def py_lower_def lower_char_def is_ascii_upper_def
      findall_at.simps match_at_def at_boundary_def is_word_def is_ascii_lower_def
      is_ascii_digit_def)

lemma findall_xaspirin:
  "findall E MEDICATION_PATTERN (py_lower E (str ''xaspirin 100mg'')) = []"
  by (simp add: MEDICATION_PATTERN_def str_def py_lower_def lower_char_def is_ascii_upper_def
      findall_at.simps match_at_def at_boundary_def is_word_def is_ascii_lower_def
      is_ascii_digit_def)

lemma whole_word_not_embedded: "whole_word_at E t s p \<Longrightarrow> \<not> embedded_at E t s p"
  by (auto simp: whole_word_at_def embedded_at_def)

lemma extracted_occurs:
  assumes "t \<in> set (fst (extract_entities E doc)) \<or> t \<in> set (snd (extract_entities E doc))"
  shows "occurs_as_whole_word E t (py_lower E doc)"
  using assms list_of_set_props findall_whole_words [OF _ medication_words]
    findall_whole_words [OF _ symptom_words]
  by (auto simp: extract_entities_def Let_def)

text \<open>
  Claim C5. A vocabulary term inside a longer word does not match: a term of which every
  occurrence in the lowercased text has a word character just before or just after it is
  neither among the medications nor among the symptoms returned. The texts
  \<^verbatim>\<open>aspirino 100mg\<close> and \<^verbatim>\<open>xaspirin 100mg\<close> give no medication, and
  \<^verbatim>\<open>take aspirin now\<close> gives exactly aspirin.
\<close>

theorem embedded_terms_do_not_match:
  "((\<forall>p \<le> length (py_lower E doc).
       take (length t) (drop p (py_lower E doc)) = t \<longrightarrow> embedded_at E t (py_lower E doc) p) \<longrightarrow>
     t \<notin> set (fst (extract_entities E doc)) \<and> t \<notin> set (snd (extract_entities E doc))) \<and>
   fst (extract_entities E (str ''aspirino 100mg'')) = [] \<and>
   fst (extract_entities E (str ''xaspirin 100mg'')) = [] \<and>
   fst (extract_entities E (str ''take aspirin now'')) = [str ''aspirin'']"
proof -
  have g: "t \<notin> set (fst (extract_entities E doc)) \<and> t \<notin> set (snd (extract_entities E doc))"
    if h: "\<forall>p \<le> length (py_lower E doc).
       take (length t) (drop p (py_lower E doc)) = t \<longrightarrow> embedded_at E t (py_lower E doc) p"
  proof (rule ccontr)
    assume "\<not> ?thesis"
    then have "occurs_as_whole_word E t (py_lower E doc)"
      using extracted_occurs [of t E doc] by blast
    then obtain p where p: "p \<le> length (py_lower E doc)" "whole_word_at E t (py_lower E doc) p"
      by (auto simp: occurs_as_whole_word_def)
    then have "take (length t) (drop p (py_lower E doc)) = t"
      by (simp add: whole_word_at_def)
    with h p(1) have "embedded_at E t (py_lower E doc) p" by blast
    with whole_word_not_embedded [OF p(2)] show False by contradiction
  qed
  have e: "fst (extract_entities E (str ''aspirino 100mg'')) = [] \<and>
   fst (extract_entities E (str ''xaspirin 100mg'')) = [] \<and>
   fst (extract_entities E (str ''take aspirin now'')) = [str ''aspirin'']"
    by (simp add: extract_entities_def Let_def findall_aspirino findall_xaspirin
      findall_take_aspirin_now list_of_set_Nil list_of_set_single)
  from g e show ?thesis by blast
qed

lemma all_le_list_all: "(\<forall>p \<le> n. P p) = list_all P [0..<Suc n]"
  by (auto simp: list_all_iff less_Suc_eq_le)

theorem embedded_terms_do_not_match_witness:
  "py_lower plain_env (str ''Headaches and xaspirin'') = str ''headaches and xaspirin'' \<and>
   take (length (str ''aspirin'')) (drop 15 (str ''headaches and xaspirin'')) = str ''aspirin'' \<and>
   embedded_at plain_env (str ''aspirin'') (str ''headaches and xaspirin'') 15 \<and>
   take (length (str ''headache'')) (drop 0 (str ''headaches and xaspirin'')) = str ''headache'' \<and>
   embedded_at plain_env (str ''headache'') (str ''headaches and xaspirin'') 0 \<and>
   str ''aspirin'' \<notin> set (fst (extract_entities plain_env (str ''Headaches and xaspirin''))) \<and>
   str ''headache'' \<notin> set (snd (extract_entities plain_env (str ''Headaches and xaspirin'')))"
proof -
  have l: "py_lower plain_env (str ''Headaches and xaspirin'') = str ''headaches and xaspirin''"
    by (simp add: str_def py_lower_def lower_char_def is_ascii_upper_def)
  have 1: "\<forall>p \<le> length (py_lower plain_env (str ''Headaches and xaspirin'')).
       take (length (str ''aspirin'')) (drop p (py_lower plain_env (str ''Headaches and xaspirin'')))
         = str ''aspirin'' \<longrightarrow>
       embedded_at plain_env (str ''aspirin'')
         (py_lower plain_env (str ''Headaches and xaspirin'')) p"
    unfolding l all_le_list_all
    by (simp add: str_def embedded_at_def is_word_def is_ascii_lower_def)
  have 2: "\<forall>p \<le> length (py_lower plain_env (str ''Headaches and xaspirin'')).
       take (length (str ''headache'')) (drop p (py_lower plain_env (str ''Headaches and xaspirin'')))
         = str ''headache'' \<longrightarrow>
       embedded_at plain_env (str ''headache'')
         (py_lower plain_env (str ''Headaches and xaspirin'')) p"
    unfolding l all_le_list_all
    by (simp add: str_def embedded_at_def is_word_def is_ascii_lower_def)
  have 3: "take (length (str ''aspirin'')) (drop 15 (str ''headaches and xaspirin'')) =
      str ''aspirin'' \<and>
    embedded_at plain_env (str ''aspirin'') (str ''headaches and xaspirin'') 15 \<and>
    take (length (str ''headache'')) (drop 0 (str ''headaches and xaspirin'')) =
      str ''headache'' \<and>
    embedded_at plain_env (str ''headache'') (str ''headaches and xaspirin'') 0"
    by (simp add: str_def embedded_at_def is_word_def is_ascii_lower_def)
  from 1 2 3 l
    embedded_terms_do_not_match [of plain_env "str ''Headaches and xaspirin''" "str ''aspirin''"]
    embedded_terms_do_not_match [of plain_env "str ''Headaches and xaspirin''" "str ''headache''"]
  show ?thesis by blast
qed

lemma lower_char_same: "same_letter E c d \<Longrightarrow> lower_char E c = lower_char E d"
  unfolding same_letter_def lower_char_def is_ascii_upper_def by auto

lemma sigma_same: "same_letter E c d \<Longrightarrow> (c = 931) = (d = 931)"
  unfolding same_letter_def is_ascii_upper_def by auto

lemma is_cased_same: "same_letter E c d \<Longrightarrow> is_cased E c = is_cased E d"
  unfolding same_letter_def is_cased_def is_ascii_upper_def is_ascii_lower_def by auto

lemma is_case_ignorable_same:
  "same_letter E c d \<Longrightarrow> is_case_ignorable E c = is_case_ignorable E d"
  unfolding same_letter_def is_case_ignorable_def is_ascii_upper_def by auto

lemma dropWhile_same:
  "list_all2 (same_letter E) xs ys \<Longrightarrow>
     list_all2 (same_letter E) (dropWhile (is_case_ignorable E) xs)
       (dropWhile (is_case_ignorable E) ys)"
  by (induction xs ys rule: list_all2_induct) (simp_all add: is_case_ignorable_same)

lemma first_cased_same:
  assumes "list_all2 (same_letter E) xs ys"
  shows "(case xs of [] \<Rightarrow> a | c # _ \<Rightarrow> f (is_cased E c)) =
         (case ys of [] \<Rightarrow> a | c # _ \<Rightarrow> f (is_cased E c))"
  using assms by (cases rule: list_all2_induct [consumes 1]) (simp_all add: is_cased_same)

lemma final_sigma_same:
  assumes "list_all2 (same_letter E) pa pb" and "list_all2 (same_letter E) a b"
  shows "final_sigma E pa a = final_sigma E pb b"
proof -
  have after: "(case dropWhile (is_case_ignorable E) a of [] \<Rightarrow> True | d # _ \<Rightarrow> \<not> is_cased E d) =
      (case dropWhile (is_case_ignorable E) b of [] \<Rightarrow> True | d # _ \<Rightarrow> \<not> is_cased E d)"
    using first_cased_same [OF dropWhile_same [OF assms(2)], of True Not] .
  have "list_all2 (same_letter E) (rev pa) (rev pb)"
    using assms(1) by simp
  from dropWhile_same [OF this] show ?thesis
    unfolding final_sigma_def after
    by (cases rule: list_all2_induct [consumes 1]) (simp_all add: is_cased_same)
qed

lemma lower_from_same:
  "list_all2 (same_letter E) a b \<Longrightarrow> list_all2 (same_letter E) pa pb \<Longrightarrow>
     lower_from E pa a = lower_from E pb b"
proof (induction a b arbitrary: pa pb rule: list_all2_induct)
  case Nil
  show ?case by simp
next
  case (Cons c a d b)
  have "list_all2 (same_letter E) (pa @ [c]) (pb @ [d])"
    using Cons.prems Cons.hyps(1) by (simp add: list_all2_appendI)
  then have "lower_from E (pa @ [c]) a = lower_from E (pb @ [d]) b"
    by (rule Cons.IH)
  moreover have "final_sigma E pa a = final_sigma E pb b"
    using Cons.prems Cons.hyps(2) by (rule final_sigma_same)
  ultimately show ?case
    using sigma_same [OF Cons.hyps(1)] lower_char_same [OF Cons.hyps(1)] by simp
qed

lemma py_lower_same: "differ_only_in_case E a b \<Longrightarrow> py_lower E a = py_lower E b"
  unfolding differ_only_in_case_def py_lower_def
  by (rule lower_from_same) simp_all

text \<open>
  Claim C6. Two texts that differ only in letter case give the same medications and the
  same symptoms.
\<close>

theorem extract_entities_case_insensitive:
  "differ_only_in_case E a b \<Longrightarrow> extract_entities E a = extract_entities E b"
  by (simp add: extract_entities_def py_lower_same)

theorem extract_entities_case_insensitive_witness:
  "differ_only_in_case plain_env (str ''ASPIRIN'') (str ''Aspirin'') \<and>
   differ_only_in_case plain_env (str ''Aspirin'') (str ''aspirin'') \<and>
   extract_entities plain_env (str ''ASPIRIN'') = extract_entities plain_env (str ''Aspirin'') \<and>
   extract_entities plain_env (str ''Aspirin'') = extract_entities plain_env (str ''aspirin'') \<and>
   differ_only_in_case greek_env ([913, 931, 32] @ str ''Rash'') ([945, 931, 32] @ str ''RASH'') \<and>
   extract_entities greek_env ([913, 931, 32] @ str ''Rash'') =
     extract_entities greek_env ([945, 931, 32] @ str ''RASH'')"
proof -
  have 1: "differ_only_in_case plain_env (str ''ASPIRIN'') (str ''Aspirin'')"
    by (simp add: differ_only_in_case_def same_letter_def is_ascii_upper_def str_def)
  have 2: "differ_only_in_case plain_env (str ''Aspirin'') (str ''aspirin'')"
    by (simp add: differ_only_in_case_def same_letter_def is_ascii_upper_def str_def)
  have 3: "differ_only_in_case greek_env ([913, 931, 32] @ str ''Rash'')
      ([945, 931, 32] @ str ''RASH'')"
    by (simp add: differ_only_in_case_def same_letter_def is_ascii_upper_def str_def
        greek_env_def)
  show ?thesis
    using 1 2 3 extract_entities_case_insensitive [OF 1] extract_entities_case_insensitive [OF 2]
      extract_entities_case_insensitive [OF 3]
    by simp
qed

lemma vocabularies_disjoint:
  "set (alternatives MEDICATION_PATTERN) \<inter> set (alternatives SYMPTOM_PATTERN) = {}"
  by (simp add: MEDICATION_PATTERN_def SYMPTOM_PATTERN_def str_def)

text \<open>
  Claim C10. For every text, no term is both among the medications and among the symptoms
  that \<open>extract_entities\<close> returns, the two vocabularies having no term in common.
\<close>

theorem extract_entities_disjoint:
  "set (fst (extract_entities E text)) \<inter> set (snd (extract_entities E text)) = {} \<and>
   set (alternatives MEDICATION_PATTERN) \<inter> set (alternatives SYMPTOM_PATTERN) = {}"
proof -
  have "set (fst (extract_entities E text)) \<subseteq> set (alternatives MEDICATION_PATTERN)"
    using findall_whole_words [OF _ medication_words] list_of_set_props
    by (auto simp: extract_entities_def Let_def)
  moreover have "set (snd (extract_entities E text)) \<subseteq> set (alternatives SYMPTOM_PATTERN)"
    using findall_whole_words [OF _ symptom_words] list_of_set_props
    by (auto simp: extract_entities_def Let_def)
  ultimately show ?thesis using vocabularies_disjoint by blast
qed

section \<open>Properties of the adverse-event lookup\<close>

lemma map_exn_Inr:
  "map_exn f xs = Inr ys \<Longrightarrow> list_all2 (\<lambda>x y. f x = Inr y) xs ys"
  by (induction xs arbitrary: ys) (auto split: sum.splits)

lemma lower_from_ascii:
  "\<forall>c \<in> set t. c < 128 \<Longrightarrow> lower_from E before t = map ascii_small t"
  by (induction t arbitrary: before)
     (simp_all add: lower_char_def ascii_small_def is_ascii_upper_def)

lemma ascii_small_no_capital: "c \<in> set (map ascii_small t) \<Longrightarrow> \<not> (65 \<le> c \<and> c \<le> 90)"
  by (auto simp: ascii_small_def)

lemma term_of_Inr: "term_of E item = Inr a \<Longrightarrow> lowercased_term_of E item a"
proof (cases item)
  case (JObj kvs)
  assume a: "term_of E item = Inr a"
  with JObj obtain t where t: "member kvs (str ''term'') = Some (JStr t)" "a = py_lower E t"
    by (auto split: option.splits json.splits)
  have "a = map ascii_small t \<and> (\<forall>c \<in> set a. \<not> (65 \<le> c \<and> c \<le> 90))"
    if "\<forall>c \<in> set t. c < 128"
    using lower_from_ascii [OF that, of E "[]"] t(2) ascii_small_no_capital [of _ t]
    by (auto simp: py_lower_def)
  with t JObj show ?thesis by (simp add: lowercased_term_of_def)
qed simp_all

lemma map_exn_term_of:
  assumes "map_exn (term_of E) items = Inr ts"
  shows "list_all2 (lowercased_term_of E) items ts"
  using map_exn_Inr [OF assms] by (rule list_all2_mono) (rule term_of_Inr)

lemma map_exn_term_of_strings:
  "map_exn (term_of E) (map JStr ks) = Inr ts \<Longrightarrow> ts = []"
  by (cases ks) (auto split: sum.splits)

lemma map_exn_term_of_chars:
  "map_exn (term_of E) (map (\<lambda>c. JStr [c]) s) = Inr ts \<Longrightarrow> ts = []"
  by (cases s) (auto split: sum.splits)

lemma terms_of_response_Inr:
  assumes "terms_of_response E resp = Inr ts"
  shows "ts = [] \<or>
         list_all2 (lowercased_term_of E)
           (results_sent (Inr resp)) ts"
proof (cases "json_body resp")
  case (Inl e)
  with assms show ?thesis by (simp add: terms_of_response_def)
next
  case (Inr v)
  show ?thesis
  proof (cases v)
    case (JObj kvs)
    show ?thesis
    proof (cases "member kvs (str ''results'')")
      case None
      with assms Inr JObj show ?thesis by (simp add: terms_of_response_def)
    next
      case (Some res)
      show ?thesis
      proof (cases res)
        case (JArr items)
        with assms Inr JObj Some have "map_exn (term_of E) items = Inr ts"
          by (simp add: terms_of_response_def)
        from map_exn_term_of [OF this] Inr JObj Some JArr show ?thesis
          by (simp add: results_sent_def)
      next
        case (JStr s)
        with assms Inr JObj Some show ?thesis
          by (auto simp: terms_of_response_def dest: map_exn_term_of_chars)
      next
        case (JObj kvs')
        with assms Inr \<open>v = JObj kvs\<close> Some show ?thesis
          by (auto simp: terms_of_response_def dest: map_exn_term_of_strings)
      qed (use assms Inr JObj Some in \<open>simp_all add: terms_of_response_def\<close>)
    qed
  qed (use assms Inr in \<open>simp_all add: terms_of_response_def\<close>)
qed

lemma get_fda_events_cases:
  assumes "remote w (fda_request med) = (outcome, w')"
  shows "get_fda_events E remote w med =
     (case outcome of
        Inl e \<Rightarrow> (([], [Http_get (fda_request med), St_error_exn (str ''FDA API Error: '') e]), w')
      | Inr resp \<Rightarrow>
          if status_code resp = 200
          then (case terms_of_response E resp of
                  Inl e \<Rightarrow> (([], [Http_get (fda_request med),
                                  St_error_exn (str ''FDA API Error: '') e]), w')
                | Inr terms \<Rightarrow> ((terms, [Http_get (fda_request med)]), w'))
          else (([], [Http_get (fda_request med)]), w'))"
  using assms by (simp add: get_fda_events_def Let_def)

lemma get_fda_events_terms:
  assumes "remote w (fda_request med) = (outcome, w')"
  shows "fst (fst (get_fda_events E remote w med)) = [] \<or>
         list_all2 (lowercased_term_of E)
           (results_sent outcome) (fst (fst (get_fda_events E remote w med)))"
proof (cases outcome)
  case (Inl e)
  then show ?thesis by (simp add: get_fda_events_cases [where remote = remote and w = w and med = med and E = E, OF assms])
next
  case (Inr resp)
  show ?thesis
  proof (cases "status_code resp = 200")
    case False
    with Inr show ?thesis by (simp add: get_fda_events_cases [where remote = remote and w = w and med = med and E = E, OF assms])
  next
    case True
    show ?thesis
    proof (cases "terms_of_response E resp")
      case (Inl e)
      with Inr True show ?thesis by (simp add: get_fda_events_cases [where remote = remote and w = w and med = med and E = E, OF assms])
    next
      case ts: (Inr ts)
      from terms_of_response_Inr [OF ts] Inr True ts show ?thesis
        by (simp add: get_fda_events_cases [where remote = remote and w = w and med = med and E = E, OF assms])
    qed
  qed
qed

text \<open>
  Claim C3, as the code has it. For every medication name and every outcome of the remote
  call, the list returned by \<open>get_fda_events\<close> is empty or has one element for each item
  of the results list the remote service sent, in order, each the lowercased reaction
  term of its item: what \<^verbatim>\<open>lower()\<close> makes of the term, which for a term written in
  ASCII is the term with every capital replaced by its small letter. So the list is never
  longer than the results list sent, and has at most 5 elements whenever the remote
  service keeps to the limit of the request.
\<close>

theorem get_fda_events_bounded:
  assumes "remote w (fda_request med) = (outcome, w')"
  shows "(fst (fst (get_fda_events E remote w med)) = [] \<or>
          list_all2 (lowercased_term_of E)
            (results_sent outcome) (fst (fst (get_fda_events E remote w med)))) \<and>
         length (fst (fst (get_fda_events E remote w med))) \<le> length (results_sent outcome) \<and>
         (length (results_sent outcome) \<le> limit (fda_request med) \<longrightarrow>
            length (fst (fst (get_fda_events E remote w med))) \<le> 5)"
proof -
  note t = get_fda_events_terms [where remote = remote and w = w and med = med and E = E, OF assms]
  then have len: "length (fst (fst (get_fda_events E remote w med))) \<le> length (results_sent outcome)"
    by (auto dest: list_all2_lengthD)
  moreover have "limit (fda_request med) = 5" by (simp add: fda_request_def)
  ultimately show ?thesis using t by auto
qed

lemma demo_aspirin:
  "get_fda_events plain_env demo_remote 0 (str ''Aspirin'') =
     (([str ''nausea'', str ''bleeding'', str ''rash''], [Http_get (fda_request (str ''Aspirin''))]), 1)"
  by (simp add: get_fda_events_def demo_remote_def fda_request_def terms_of_response_def
      reaction_def member_def str_def py_lower_def lower_char_def is_ascii_upper_def)

theorem get_fda_events_bounded_witness:
  "demo_remote 0 (fda_request (str ''Aspirin'')) =
     (Inr \<lparr>status_code = 200,
           json_body = Inr (JObj [(str ''results'',
             JArr [reaction ''NAUSEA'' 9, reaction ''BLEEDING'' 7, reaction ''RASH'' 2])])\<rparr>, 1) \<and>
   length (fst (fst (get_fda_events plain_env demo_remote 0 (str ''Aspirin'')))) \<le> 5 \<and>
   fst (fst (get_fda_events plain_env demo_remote 0 (str ''Aspirin''))) =
     [str ''nausea'', str ''bleeding'', str ''rash''] \<and>
   list_all2 (lowercased_term_of plain_env)
     [reaction ''NAUSEA'' 9, reaction ''BLEEDING'' 7, reaction ''RASH'' 2]
     [str ''nausea'', str ''bleeding'', str ''rash'']"
proof -
  have r: "demo_remote 0 (fda_request (str ''Aspirin'')) =
     (Inr \<lparr>status_code = 200,
           json_body = Inr (JObj [(str ''results'',
             JArr [reaction ''NAUSEA'' 9, reaction ''BLEEDING'' 7, reaction ''RASH'' 2])])\<rparr>, 1)"
    by (simp add: demo_remote_def)
  have "length (results_sent (Inr \<lparr>status_code = 200,
           json_body = Inr (JObj [(str ''results'',
             JArr [reaction ''NAUSEA'' 9, reaction ''BLEEDING'' 7, reaction ''RASH'' 2])])\<rparr>))
        \<le> limit (fda_request (str ''Aspirin''))"
    by (simp add: results_sent_def member_def fda_request_def)
  moreover have "results_sent (Inr \<lparr>status_code = 200,
           json_body = Inr (JObj [(str ''results'',
             JArr [reaction ''NAUSEA'' 9, reaction ''BLEEDING'' 7, reaction ''RASH'' 2])])\<rparr>) =
         [reaction ''NAUSEA'' 9, reaction ''BLEEDING'' 7, reaction ''RASH'' 2]"
    by (simp add: results_sent_def member_def)
  moreover have "fst (fst (get_fda_events plain_env demo_remote 0 (str ''Aspirin''))) =
     [str ''nausea'', str ''bleeding'', str ''rash'']"
    by (simp add: demo_aspirin)
  ultimately show ?thesis
    using get_fda_events_bounded [where remote = demo_remote and w = 0
        and med = "str ''Aspirin''" and E = plain_env, OF r] r
    by simp
qed

text \<open>
  The bound of claim C3 is the remote service's, not the function's: six results sent
  with status 200 are six elements returned.
\<close>

theorem get_fda_events_six_results:
  "\<not> length (fst (fst (get_fda_events plain_env demo_remote 0 (str ''Ibuprofen'')))) \<le> 5"
  by (simp add: get_fda_events_def demo_remote_def fda_request_def terms_of_response_def
      reaction_def member_def str_def)


lemma requests_of_get_fda_events:
  "concat (map requests_of (snd (fst (get_fda_events E remote w med)))) = [fda_request med]"
  by (cases "remote w (fda_request med)")
     (simp add: get_fda_events_def Let_def split: sum.splits)

lemma requests_of_report: "x \<in> set (report E symptoms aes) \<Longrightarrow> requests_of x = []"
  by (auto simp: report_def Let_def split: if_splits)

lemma requests_of_analyse_medication:
  "requests_of (fst (analyse_medication E remote w symptoms med)) =
     [fda_request (capitalize E med)]"
proof -
  obtain aes evs w' where g: "get_fda_events E remote w (capitalize E med) = ((aes, evs), w')"
    by (metis surj_pair)
  with requests_of_get_fda_events [of E remote w "capitalize E med"]
  have "concat (map requests_of evs) = [fda_request (capitalize E med)]" by simp
  with g show ?thesis
    by (simp add: analyse_medication_def Let_def requests_of_report)
qed

lemma analyse_medications_all:
  "concat (map requests_of (fst (analyse_medications E remote w symptoms meds))) =
     map (\<lambda>m. fda_request (capitalize E m)) meds \<and>
   length (fst (analyse_medications E remote w symptoms meds)) = length meds"
proof (induction meds arbitrary: w)
  case Nil
  show ?case by simp
next
  case (Cons m ms)
  obtain sec w' where a: "analyse_medication E remote w symptoms m = (sec, w')"
    by (metis surj_pair)
  obtain secs w'' where b: "analyse_medications E remote w' symptoms ms = (secs, w'')"
    by (metis surj_pair)
  from requests_of_analyse_medication [of E remote w symptoms m] a
  have "requests_of sec = [fda_request (capitalize E m)]" by simp
  moreover from Cons.IH [of w'] b
  have "concat (map requests_of secs) = map (\<lambda>m. fda_request (capitalize E m)) ms"
    and "length secs = length ms" by simp_all
  ultimately show ?case using a b by simp
qed

text \<open>
  Claim C4, as the code has it. When the remote call raises, or answers 200 with a payload
  from which the terms cannot be read, \<open>get_fda_events\<close> returns the empty list and shows
  one error box with the exception; when the status is not 200 it returns the empty list
  and shows nothing. In every case it returns normally, having made exactly one request;
  and the loop over the medications makes one request for each medication, in order,
  whatever the outcomes of the earlier ones.
\<close>

theorem get_fda_events_failure:
  assumes "remote w (fda_request med) = (outcome, w')"
  shows
    "(\<forall>e. outcome = Inl e \<longrightarrow>
        get_fda_events E remote w med =
          (([], [Http_get (fda_request med), St_error_exn (str ''FDA API Error: '') e]), w')) \<and>
     (\<forall>resp e. outcome = Inr resp \<and> status_code resp = 200 \<and>
        terms_of_response E resp = Inl e \<longrightarrow>
        get_fda_events E remote w med =
          (([], [Http_get (fda_request med), St_error_exn (str ''FDA API Error: '') e]), w')) \<and>
     (\<forall>resp e. json_body resp = Inl e \<longrightarrow> terms_of_response E resp = Inl e) \<and>
     (\<forall>resp. outcome = Inr resp \<and> status_code resp \<noteq> 200 \<longrightarrow>
        get_fda_events E remote w med = (([], [Http_get (fda_request med)]), w')) \<and>
     concat (map requests_of (snd (fst (get_fda_events E remote w med)))) = [fda_request med] \<and>
     concat (map requests_of (fst (analyse_medications E remote w symptoms meds))) =
       map (\<lambda>m. fda_request (capitalize E m)) meds \<and>
     length (fst (analyse_medications E remote w symptoms meds)) = length meds"
proof -
  note c = get_fda_events_cases [where remote = remote and w = w and med = med and E = E, OF assms]
  have 1: "\<forall>e. outcome = Inl e \<longrightarrow>
        get_fda_events E remote w med =
          (([], [Http_get (fda_request med), St_error_exn (str ''FDA API Error: '') e]), w')"
    using c by simp
  have 2: "\<forall>resp e. outcome = Inr resp \<and> status_code resp = 200 \<and>
        terms_of_response E resp = Inl e \<longrightarrow>
        get_fda_events E remote w med =
          (([], [Http_get (fda_request med), St_error_exn (str ''FDA API Error: '') e]), w')"
    using c by simp
  have 3: "\<forall>resp e. json_body resp = Inl e \<longrightarrow> terms_of_response E resp = Inl e"
    by (simp add: terms_of_response_def)
  have 4: "\<forall>resp. outcome = Inr resp \<and> status_code resp \<noteq> 200 \<longrightarrow>
        get_fda_events E remote w med = (([], [Http_get (fda_request med)]), w')"
    using c by simp
  from 1 2 3 4 requests_of_get_fda_events [of E remote w med]
    analyse_medications_all [of E remote w symptoms meds]
  show ?thesis by blast
qed

lemmas eval_text =
  py_lower_def lower_char_def title_char_def is_ascii_upper_def is_ascii_lower_def

lemmas eval_lookup =
  get_fda_events_def demo_remote_def fda_request_def terms_of_response_def reaction_def
  member_def

theorem get_fda_events_failure_witness:
  "demo_remote 0 (fda_request (str ''Warfarin'')) = (Inl (Raised (str ''timed out'')), 1) \<and>
   get_fda_events plain_env demo_remote 0 (str ''Warfarin'') =
     (([], [Http_get (fda_request (str ''Warfarin'')),
            St_error_exn (str ''FDA API Error: '') (Raised (str ''timed out''))]), 1) \<and>
   demo_remote 0 (fda_request (str ''Lisinopril'')) =
     (Inr \<lparr>status_code = 200, json_body = Inl (Raised (str ''Expecting value''))\<rparr>, 1) \<and>
   get_fda_events plain_env demo_remote 0 (str ''Lisinopril'') =
     (([], [Http_get (fda_request (str ''Lisinopril'')),
            St_error_exn (str ''FDA API Error: '') (Raised (str ''Expecting value''))]), 1) \<and>
   demo_remote 0 (fda_request (str ''Metformin'')) =
     (Inr \<lparr>status_code = 404,
           json_body = Inr (JObj [(str ''error'', JStr (str ''NOT_FOUND''))])\<rparr>, 1) \<and>
   get_fda_events plain_env demo_remote 0 (str ''Metformin'') =
     (([], [Http_get (fda_request (str ''Metformin''))]), 1) \<and>
   concat (map requests_of (fst (analyse_medications plain_env demo_remote 0 []
       [str ''warfarin'', str ''aspirin'']))) =
     [fda_request (str ''Warfarin''), fda_request (str ''Aspirin'')]"
proof -
  have r1: "demo_remote 0 (fda_request (str ''Warfarin'')) =
      (Inl (Raised (str ''timed out'')), 1)"
    by (simp add: demo_remote_def fda_request_def str_def)
  have r2: "demo_remote 0 (fda_request (str ''Lisinopril'')) =
      (Inr \<lparr>status_code = 200, json_body = Inl (Raised (str ''Expecting value''))\<rparr>, 1)"
    by (simp add: demo_remote_def fda_request_def str_def)
  have r3: "demo_remote 0 (fda_request (str ''Metformin'')) =
      (Inr \<lparr>status_code = 404,
            json_body = Inr (JObj [(str ''error'', JStr (str ''NOT_FOUND''))])\<rparr>, 1)"
    by (simp add: demo_remote_def fda_request_def str_def)
  have c: "capitalize plain_env (str ''warfarin'') = str ''Warfarin''"
    "capitalize plain_env (str ''aspirin'') = str ''Aspirin''"
    by (simp_all add: str_def eval_text)
  note t1 = get_fda_events_failure [where remote = demo_remote and w = 0
      and med = "str ''Warfarin''" and E = plain_env and symptoms = "[]"
      and meds = "[str ''warfarin'', str ''aspirin'']", OF r1]
  note t2 = get_fda_events_failure [where remote = demo_remote and w = 0
      and med = "str ''Lisinopril''" and E = plain_env and symptoms = "[]"
      and meds = "[]", OF r2]
  note t3 = get_fda_events_failure [where remote = demo_remote and w = 0
      and med = "str ''Metformin''" and E = plain_env and symptoms = "[]"
      and meds = "[]", OF r3]
  have g1: "get_fda_events plain_env demo_remote 0 (str ''Warfarin'') =
     (([], [Http_get (fda_request (str ''Warfarin'')),
            St_error_exn (str ''FDA API Error: '') (Raised (str ''timed out''))]), 1)"
    using t1 by blast
  have "terms_of_response plain_env
      \<lparr>status_code = 200, json_body = Inl (Raised (str ''Expecting value''))\<rparr> =
      Inl (Raised (str ''Expecting value''))"
    using t2 by simp
  then have g2: "get_fda_events plain_env demo_remote 0 (str ''Lisinopril'') =
     (([], [Http_get (fda_request (str ''Lisinopril'')),
            St_error_exn (str ''FDA API Error: '') (Raised (str ''Expecting value''))]), 1)"
    using t2 by simp
  have g3: "get_fda_events plain_env demo_remote 0 (str ''Metformin'') =
     (([], [Http_get (fda_request (str ''Metformin''))]), 1)"
    using t3 by simp
  have g4: "concat (map requests_of (fst (analyse_medications plain_env demo_remote 0 []
       [str ''warfarin'', str ''aspirin'']))) =
     [fda_request (str ''Warfarin''), fda_request (str ''Aspirin'')]"
    using t1 c by simp
  from r1 r2 r3 g1 g2 g3 g4 show ?thesis by blast
qed

text \<open>
  The warning of claim C4 is missing for a status other than 200: a 404 gives the empty
  list and no error box.
\<close>

theorem get_fda_events_silent_on_status:
  "fst (demo_remote 0 (fda_request (str ''Metformin''))) =
     Inr \<lparr>status_code = 404,
          json_body = Inr (JObj [(str ''error'', JStr (str ''NOT_FOUND''))])\<rparr> \<and>
   get_fda_events plain_env demo_remote 0 (str ''Metformin'') =
     (([], [Http_get (fda_request (str ''Metformin''))]), 1) \<and>
   concat (map diagnostics_of
     (snd (fst (get_fda_events plain_env demo_remote 0 (str ''Metformin''))))) = []"
  by (simp add: eval_lookup str_def)

section \<open>Properties of the cross-referencer and presenter\<close>

text \<open>
  Claim C7. For a medication whose lookup returns the empty list, the presenter writes
  "No adverse event data found" in the medication's expander after whatever the lookup
  showed, the symptoms play no part in what it shows, and it adds no error box.
\<close>

theorem no_data_report:
  assumes "get_fda_events E remote w (capitalize E med) = (([], evs), w')"
  shows "analyse_medication E remote w symptoms med =
           (St_expander (str ''**'' @ capitalize E med @ str ''** Analysis'')
              (evs @ [St_write (str ''No adverse event data found'')]), w') \<and>
         analyse_medication E remote w symptoms med =
           analyse_medication E remote w symptoms' med \<and>
         diagnostics_of (fst (analyse_medication E remote w symptoms med)) =
           concat (map diagnostics_of evs)"
  using assms by (simp add: analyse_medication_def Let_def)

theorem no_data_report_witness:
  "get_fda_events plain_env demo_remote 0 (capitalize plain_env (str ''metformin'')) =
     (([], [Http_get (fda_request (str ''Metformin''))]), 1) \<and>
   analyse_medication plain_env demo_remote 0 [str ''nausea''] (str ''metformin'') =
     (St_expander (str ''**Metformin** Analysis'')
        [Http_get (fda_request (str ''Metformin'')),
         St_write (str ''No adverse event data found'')], 1)"
proof -
  have c: "capitalize plain_env (str ''metformin'') = str ''Metformin''"
    by (simp add: str_def eval_text)
  have g: "get_fda_events plain_env demo_remote 0 (capitalize plain_env (str ''metformin'')) =
     (([], [Http_get (fda_request (str ''Metformin''))]), 1)"
    unfolding c by (simp add: eval_lookup str_def)
  from no_data_report [where remote = demo_remote and w = 0 and E = plain_env
      and med = "str ''metformin''" and symptoms = "[str ''nausea'']", OF g] g c
  show ?thesis by (simp add: str_def)
qed

lemma set_matches: "set (matches symptoms aes) = set symptoms \<inter> set aes"
  by (auto simp: matches_def)

text \<open>
  Claim C2. The matches of a symptom list and an adverse-event list are, as a set, the
  intersection of the two, whatever the order of either. For the symptoms headache and
  nausea and the adverse events nausea, bleeding, rash the matches are exactly nausea, and
  the report flags nausea and not headache. A non-empty match is reported as a potential
  adverse effect with its terms; an empty match is reported as no match, with the whole
  adverse-event list; and that report is what the expander of a medication with a
  non-empty list shows.
\<close>

theorem cross_reference:
  "set (matches symptoms aes) = set symptoms \<inter> set aes \<and>
   (set symptoms = set symptoms' \<and> set aes = set aes' \<longrightarrow>
      set (matches symptoms aes) = set (matches symptoms' aes')) \<and>
   matches [str ''headache'', str ''nausea''] [str ''nausea'', str ''bleeding'', str ''rash''] =
     [str ''nausea''] \<and>
   matches [str ''nausea'', str ''headache''] [str ''nausea'', str ''bleeding'', str ''rash''] =
     [str ''nausea''] \<and>
   report E [str ''headache'', str ''nausea''] [str ''nausea'', str ''bleeding'', str ''rash''] =
     [St_error (str ''**Potential adverse effects detected:**''),
      St_write ([8226, 32] @ str ''Nausea''),
      St_write (str ''Common FDA-reported effects:''),
      St_write (str ''Nausea, Bleeding, Rash'')] \<and>
   (matches symptoms aes \<noteq> [] \<longrightarrow>
      report E symptoms aes =
        [St_error (str ''**Potential adverse effects detected:**'')] @
        map (\<lambda>m. St_write ([8226, 32] @ capitalize E m)) (matches symptoms aes) @
        [St_write (str ''Common FDA-reported effects:''),
         St_write (join (str '', '') (map (capitalize E) aes))]) \<and>
   (matches symptoms aes = [] \<longrightarrow>
      report E symptoms aes =
        [St_success (str ''No matching adverse effects detected''),
         St_write2 (str ''Known effects:'') (join (str '', '') (map (capitalize E) aes))]) \<and>
   (get_fda_events E remote w (capitalize E med) = ((aes, evs), w') \<and> aes \<noteq> [] \<longrightarrow>
      analyse_medication E remote w symptoms med =
        (St_expander (str ''**'' @ capitalize E med @ str ''** Analysis'')
           (evs @ report E symptoms aes), w'))"
proof -
  have 1: "set (matches symptoms aes) = set symptoms \<inter> set aes"
    by (rule set_matches)
  have 2: "set symptoms = set symptoms' \<and> set aes = set aes' \<longrightarrow>
      set (matches symptoms aes) = set (matches symptoms' aes')"
    by (simp add: set_matches)
  have 3: "matches [str ''headache'', str ''nausea''] [str ''nausea'', str ''bleeding'', str ''rash''] =
     [str ''nausea'']"
    by (simp add: matches_def str_def)
  have 4: "matches [str ''nausea'', str ''headache''] [str ''nausea'', str ''bleeding'', str ''rash''] =
     [str ''nausea'']"
    by (simp add: matches_def str_def)
  have 5: "report E [str ''headache'', str ''nausea''] [str ''nausea'', str ''bleeding'', str ''rash''] =
     [St_error (str ''**Potential adverse effects detected:**''),
      St_write ([8226, 32] @ str ''Nausea''),
      St_write (str ''Common FDA-reported effects:''),
      St_write (str ''Nausea, Bleeding, Rash'')]"
    unfolding report_def 3 by (simp add: Let_def str_def eval_text)
  have 6: "matches symptoms aes \<noteq> [] \<longrightarrow>
      report E symptoms aes =
        [St_error (str ''**Potential adverse effects detected:**'')] @
        map (\<lambda>m. St_write ([8226, 32] @ capitalize E m)) (matches symptoms aes) @
        [St_write (str ''Common FDA-reported effects:''),
         St_write (join (str '', '') (map (capitalize E) aes))]"
    by (simp add: report_def Let_def)
  have 7: "matches symptoms aes = [] \<longrightarrow>
      report E symptoms aes =
        [St_success (str ''No matching adverse effects detected''),
         St_write2 (str ''Known effects:'') (join (str '', '') (map (capitalize E) aes))]"
    by (simp add: report_def Let_def)
  have 8: "get_fda_events E remote w (capitalize E med) = ((aes, evs), w') \<and> aes \<noteq> [] \<longrightarrow>
      analyse_medication E remote w symptoms med =
        (St_expander (str ''**'' @ capitalize E med @ str ''** Analysis'')
           (evs @ report E symptoms aes), w')"
    by (simp add: analyse_medication_def Let_def)
  from 1 2 3 4 5 6 7 8 show ?thesis by blast
qed

theorem cross_reference_witness:
  "get_fda_events plain_env demo_remote 0 (capitalize plain_env (str ''aspirin'')) =
     (([str ''nausea'', str ''bleeding'', str ''rash''],
       [Http_get (fda_request (str ''Aspirin''))]), 1) \<and>
   matches [str ''headache'', str ''nausea''] [str ''nausea'', str ''bleeding'', str ''rash'']
     \<noteq> [] \<and>
   analyse_medication plain_env demo_remote 0 [str ''headache'', str ''nausea'']
       (str ''aspirin'') =
     (St_expander (str ''**Aspirin** Analysis'')
        [Http_get (fda_request (str ''Aspirin'')),
         St_error (str ''**Potential adverse effects detected:**''),
         St_write ([8226, 32] @ str ''Nausea''),
         St_write (str ''Common FDA-reported effects:''),
         St_write (str ''Nausea, Bleeding, Rash'')], 1) \<and>
   matches [str ''cough''] [str ''nausea'', str ''bleeding'', str ''rash''] = [] \<and>
   report plain_env [str ''cough''] [str ''nausea'', str ''bleeding'', str ''rash''] =
     [St_success (str ''No matching adverse effects detected''),
      St_write2 (str ''Known effects:'') (str ''Nausea, Bleeding, Rash'')]"
proof -
  have c: "capitalize plain_env (str ''aspirin'') = str ''Aspirin''"
    by (simp add: str_def eval_text)
  have g: "get_fda_events plain_env demo_remote 0 (capitalize plain_env (str ''aspirin'')) =
     (([str ''nausea'', str ''bleeding'', str ''rash''],
       [Http_get (fda_request (str ''Aspirin''))]), 1)"
    unfolding c by (rule demo_aspirin)
  have n: "[str ''nausea'', str ''bleeding'', str ''rash''] \<noteq> []" by simp
  have m: "matches [str ''cough''] [str ''nausea'', str ''bleeding'', str ''rash''] = []"
    by (simp add: matches_def str_def)
  have j: "join (str '', '') (map (capitalize plain_env)
      [str ''nausea'', str ''bleeding'', str ''rash'']) = str ''Nausea, Bleeding, Rash''"
    by (simp add: str_def eval_text)
  note a = cross_reference [where E = plain_env and remote = demo_remote and w = 0
      and med = "str ''aspirin''" and symptoms = "[str ''headache'', str ''nausea'']"
      and aes = "[str ''nausea'', str ''bleeding'', str ''rash'']"
      and evs = "[Http_get (fda_request (str ''Aspirin''))]" and w' = 1
      and symptoms' = "[str ''headache'', str ''nausea'']"
      and aes' = "[str ''nausea'', str ''bleeding'', str ''rash'']"]
  note b = cross_reference [where E = plain_env and remote = demo_remote and w = 0
      and med = "str ''aspirin''" and symptoms = "[str ''cough'']"
      and aes = "[str ''nausea'', str ''bleeding'', str ''rash'']"
      and evs = "[Http_get (fda_request (str ''Aspirin''))]" and w' = 1
      and symptoms' = "[str ''cough'']"
      and aes' = "[str ''nausea'', str ''bleeding'', str ''rash'']"]
  have a3: "matches [str ''headache'', str ''nausea'']
      [str ''nausea'', str ''bleeding'', str ''rash''] = [str ''nausea'']"
    using a by blast
  have a5: "report plain_env [str ''headache'', str ''nausea'']
      [str ''nausea'', str ''bleeding'', str ''rash''] =
     [St_error (str ''**Potential adverse effects detected:**''),
      St_write ([8226, 32] @ str ''Nausea''),
      St_write (str ''Common FDA-reported effects:''),
      St_write (str ''Nausea, Bleeding, Rash'')]"
    using a by blast
  have a8: "analyse_medication plain_env demo_remote 0 [str ''headache'', str ''nausea'']
       (str ''aspirin'') =
        (St_expander (str ''**'' @ capitalize plain_env (str ''aspirin'') @ str ''** Analysis'')
           ([Http_get (fda_request (str ''Aspirin''))] @
            report plain_env [str ''headache'', str ''nausea'']
              [str ''nausea'', str ''bleeding'', str ''rash'']), 1)"
    using a g n by blast
  have b7: "report plain_env [str ''cough''] [str ''nausea'', str ''bleeding'', str ''rash''] =
        [St_success (str ''No matching adverse effects detected''),
         St_write2 (str ''Known effects:'') (join (str '', '') (map (capitalize plain_env)
           [str ''nausea'', str ''bleeding'', str ''rash'']))]"
    using b m by blast
  have t: "str ''**'' @ str ''Aspirin'' @ str ''** Analysis'' = str ''**Aspirin** Analysis''"
    by (simp add: str_def)
  show ?thesis
    unfolding a8 a5 b7 j c t using g m a3 c by simp
qed

section \<open>Properties of the analysis section\<close>

text \<open>
  Claim C8, as the code has it. For every non-empty text in which \<open>extract_entities\<close>
  finds no medication, whatever symptoms it finds, the analysis section shows the warning
  "No medications detected in the text" and makes no request, leaving the remote service
  as it was. For the empty text it shows nothing and makes no request.
\<close>

theorem no_medications_detected:
  assumes "text \<noteq> []" and "fst (extract_entities E text) = []"
  shows "analysis E remote w text =
           ([St_spinner (str ''Analyzing...'') [],
             St_warning (str ''No medications detected in the text'')], w) \<and>
         concat (map requests_of (fst (analysis E remote w text))) = [] \<and>
         analysis E remote w [] = ([], w)"
  using assms by (cases "extract_entities E text") (simp add: analysis_def)

lemma extract_symptoms_only:
  "extract_entities plain_env (str ''severe headache and nausea'') =
     ([], [str ''headache'', str ''nausea''])"
  by (simp add: extract_entities_def Let_def MEDICATION_PATTERN_def SYMPTOM_PATTERN_def str_def
      py_lower_def lower_char_def is_ascii_upper_def findall_at.simps match_at_def
      at_boundary_def is_word_def is_ascii_lower_def is_ascii_digit_def list_of_set_def
      plain_env_def)

theorem no_medications_detected_witness:
  "str ''severe headache and nausea'' \<noteq> [] \<and>
   extract_entities plain_env (str ''severe headache and nausea'') =
     ([], [str ''headache'', str ''nausea'']) \<and>
   analysis plain_env demo_remote 0 (str ''severe headache and nausea'') =
     ([St_spinner (str ''Analyzing...'') [],
       St_warning (str ''No medications detected in the text'')], 0)"
proof -
  have n: "str ''severe headache and nausea'' \<noteq> []" by (simp add: str_def)
  have f: "fst (extract_entities plain_env (str ''severe headache and nausea'')) = []"
    by (simp add: extract_symptoms_only)
  from no_medications_detected [OF n f, of demo_remote 0] n extract_symptoms_only
  show ?thesis by simp
qed

text \<open>
  Claim C8 does not hold of the empty text: the analysis section is guarded by
  \<^verbatim>\<open>if text:\<close>, and for the empty text, in which no medication is found either, it
  shows nothing at all.
\<close>

theorem empty_text_no_report:
  "fst (extract_entities plain_env []) = [] \<and>
   analysis plain_env demo_remote 0 [] = ([], 0) \<and>
   St_warning (str ''No medications detected in the text'')
     \<notin> set (fst (analysis plain_env demo_remote 0 []))"
  by (simp add: analysis_def extract_entities_def Let_def py_lower_def findall_empty
      list_of_set_Nil)

section \<open>Properties of the transcriber\<close>







end
